theory Spec2Isabelle
  imports Complex_Main "HOL-Library.Sublist" "HOL-Library.Char_ord" "HOL-Library.List_Lexorder"
begin

section \<open>JavaScript values\<close>

text \<open>
  The invitation generator is one Vue component, \<^verbatim>\<open>src/App.vue\<close>. Its script works on
  JavaScript strings and numbers, so the first sections fix how those are read here.

  A string is a \<^typ>\<open>string\<close>: a list of 8-bit characters, each standing for the UTF-16 code
  unit of the same value. Code units above 255 are outside the model.

  A number is a real number, or one of the three special values of the number type.
  Arithmetic on \<open>Num\<close> is exact: the rounding of binary64 is not modelled, and neither is the
  sign of zero (\<open>Num 0\<close> stands for both zeros, and a zero divisor counts as \<open>+0\<close>, which is
  what the two divisors of the component, the literal 600 and an element's
  \<^verbatim>\<open>clientWidth\<close>/\<^verbatim>\<open>clientHeight\<close>, can be).
\<close>

datatype number = NaN | Num real | Infinity | NegInfinity

text \<open>The sign of a non-zero real as an infinity: the result of dividing it by zero.\<close>

definition signedInfinity :: "real \<Rightarrow> number" where
  "signedInfinity a = (if a = 0 then NaN else if 0 < a then Infinity else NegInfinity)"

fun negate :: "number \<Rightarrow> number" where
  "negate NaN = NaN"
| "negate (Num a) = Num (- a)"
| "negate Infinity = NegInfinity"
| "negate NegInfinity = Infinity"

text \<open>The operator \<^verbatim>\<open>*\<close> on two numbers.\<close>

fun times :: "number \<Rightarrow> number \<Rightarrow> number" where
  "times NaN _ = NaN"
| "times _ NaN = NaN"
| "times (Num a) (Num b) = Num (a * b)"
| "times (Num a) Infinity = signedInfinity a"
| "times (Num a) NegInfinity = signedInfinity (- a)"
| "times Infinity (Num b) = signedInfinity b"
| "times NegInfinity (Num b) = signedInfinity (- b)"
| "times Infinity Infinity = Infinity"
| "times Infinity NegInfinity = NegInfinity"
| "times NegInfinity Infinity = NegInfinity"
| "times NegInfinity NegInfinity = Infinity"

text \<open>The operator \<^verbatim>\<open>/\<close> on two numbers. HOL's \<open>a / 0 = 0\<close> is not JavaScript's.\<close>

fun divide_num :: "number \<Rightarrow> number \<Rightarrow> number" where
  "divide_num NaN _ = NaN"
| "divide_num _ NaN = NaN"
| "divide_num (Num a) (Num b) = (if b = 0 then signedInfinity a else Num (a / b))"
| "divide_num (Num a) Infinity = Num 0"
| "divide_num (Num a) NegInfinity = Num 0"
| "divide_num Infinity (Num b) = (if 0 \<le> b then Infinity else NegInfinity)"
| "divide_num NegInfinity (Num b) = (if 0 \<le> b then NegInfinity else Infinity)"
| "divide_num _ _ = NaN"

text \<open>A number is falsy when it is \<open>NaN\<close> or zero; \<^verbatim>\<open>a || b\<close> is \<open>b\<close> for a falsy \<open>a\<close>.\<close>

fun truthy_number :: "number \<Rightarrow> bool" where
  "truthy_number NaN = False"
| "truthy_number (Num a) = (a \<noteq> 0)"
| "truthy_number _ = True"

definition or_number :: "number \<Rightarrow> number \<Rightarrow> number" where
  "or_number a b = (if truthy_number a then a else b)"

subsection \<open>\<^verbatim>\<open>parseFloat\<close>\<close>

text \<open>
  \<^verbatim>\<open>parseFloat\<close> is the platform's: it skips leading white space and reads the longest
  prefix of the rest that is a decimal literal,
  \<^verbatim>\<open>[+-]? (Infinity | digits [. digits?] [exponent] | . digits [exponent])\<close>, where an
  exponent is \<^verbatim>\<open>[eE] [+-]? digits\<close>. Whatever follows the literal is ignored, and the result
  is \<open>NaN\<close> when no prefix is a literal.
\<close>

definition isDigit :: "char \<Rightarrow> bool" where
  "isDigit c = (c \<in> set ''0123456789'')"

definition isWhiteSpace :: "char \<Rightarrow> bool" where
  "isWhiteSpace c = (c \<in> {CHR 0x09, CHR 0x0A, CHR 0x0B, CHR 0x0C, CHR 0x0D, CHR 0x20, CHR 0xA0})"

definition digitsValue :: "string \<Rightarrow> nat" where
  "digitsValue ds = foldl (\<lambda>a c. 10 * a + (of_char c - 48)) 0 ds"

text \<open>The exponent an exponent part denotes; 0 when the text does not start with one.\<close>

definition exponentPart :: "string \<Rightarrow> int" where
  "exponentPart s =
     (case s of
        [] \<Rightarrow> 0
      | e # r \<Rightarrow>
          if e = CHR ''e'' \<or> e = CHR ''E'' then
            (let neg = (r \<noteq> [] \<and> hd r = CHR ''-'');
                 ds = takeWhile isDigit (if r \<noteq> [] \<and> (hd r = CHR ''-'' \<or> hd r = CHR ''+'') then tl r else r)
             in if ds = [] then 0 else if neg then - int (digitsValue ds) else int (digitsValue ds))
          else 0)"

definition unsignedLiteral :: "string \<Rightarrow> number" where
  "unsignedLiteral s =
     (if prefix ''Infinity'' s then Infinity
      else
        (let ip = takeWhile isDigit s;
             r1 = dropWhile isDigit s;
             dot = (r1 \<noteq> [] \<and> hd r1 = CHR ''.'');
             fp = (if dot then takeWhile isDigit (tl r1) else []);
             r2 = (if dot then dropWhile isDigit (tl r1) else r1)
         in if ip = [] \<and> fp = [] then NaN
            else Num ((real (digitsValue ip) + real (digitsValue fp) / 10 ^ length fp)
                        * 10 powi exponentPart r2)))"

definition parseFloat :: "string \<Rightarrow> number" where
  "parseFloat s =
     (let t = dropWhile isWhiteSpace s
      in case t of
           [] \<Rightarrow> NaN
         | c # r \<Rightarrow>
             if c = CHR ''-'' then negate (unsignedLiteral r)
             else if c = CHR ''+'' then unsignedLiteral r
             else unsignedLiteral t)"

section \<open>JSON text\<close>

text \<open>
  The \<^verbatim>\<open>coordinates\<close> setting is kept in the page address as JSON text, read with
  \<^verbatim>\<open>JSON.parse\<close> and written with \<^verbatim>\<open>JSON.stringify\<close>. Both are the platform's; this
  section models them after the JSON grammar of ECMAScript. \<^verbatim>\<open>JSON.parse\<close> returns a value of
  type \<^verbatim>\<open>any\<close>, which is what the component stores, so the setting is a \<open>jsval\<close>.

  A JSON number denotes the exact decimal it spells. An object keeps its members in the order
  of their first appearance, a repeated key taking the last value. An escape
  \<^verbatim>\<open>\uXXXX\<close> above \<^verbatim>\<open>\u00FF\<close> names a code unit that a \<^typ>\<open>string\<close> cannot hold: on such a
  text the model answers \<open>Unmodelled\<close>. \<open>SyntaxError\<close> is the exception that
  \<^verbatim>\<open>JSON.parse\<close> throws.
\<close>

datatype jsval =
    JNull
  | JBool bool
  | JNumber number
  | JString string
  | JArray "jsval list"
  | JObject "(string \<times> jsval) list"

datatype error = SyntaxError | Unmodelled

datatype token = TLBracket | TRBracket | TLBrace | TRBrace | TComma | TColon | TScalar jsval

subsection \<open>Tokens\<close>

definition hexDigit :: "char \<Rightarrow> nat option" where
  "hexDigit c =
     (if isDigit c then Some (of_char c - 48)
      else if c \<in> set ''abcdef'' then Some (of_char c - 87)
      else if c \<in> set ''ABCDEF'' then Some (of_char c - 55)
      else None)"

definition hex4 :: "string \<Rightarrow> nat option" where
  "hex4 s =
     (case map hexDigit s of
        [Some a, Some b, Some c, Some d] \<Rightarrow> Some (((a * 16 + b) * 16 + c) * 16 + d)
      | _ \<Rightarrow> None)"

definition escapeChar :: "char \<Rightarrow> char option" where
  "escapeChar e =
     (if e = CHR 0x22 then Some (CHR 0x22)
      else if e = CHR 0x5C then Some (CHR 0x5C)
      else if e = CHR ''/'' then Some (CHR ''/'')
      else if e = CHR ''b'' then Some (CHR 0x08)
      else if e = CHR ''f'' then Some (CHR 0x0C)
      else if e = CHR ''n'' then Some (CHR 0x0A)
      else if e = CHR ''r'' then Some (CHR 0x0D)
      else if e = CHR ''t'' then Some (CHR 0x09)
      else None)"

text \<open>The characters of a string literal after its opening quote, and the text after it.\<close>

definition consChar :: "char \<Rightarrow> error + string \<times> string \<Rightarrow> error + string \<times> string" where
  "consChar c r = (case r of Inl e \<Rightarrow> Inl e | Inr (t, rest) \<Rightarrow> Inr (c # t, rest))"

fun lexString :: "string \<Rightarrow> error + string \<times> string" where
  "lexString [] = Inl SyntaxError"
| "lexString (c # cs) =
     (if c = CHR 0x22 then Inr ([], cs)
      else if c = CHR 0x5C then
        (case cs of
           [] \<Rightarrow> Inl SyntaxError
         | e # r \<Rightarrow>
             if e = CHR ''u'' then
               (case hex4 (take 4 r) of
                  None \<Rightarrow> Inl SyntaxError
                | Some n \<Rightarrow> if n < 256 then consChar (char_of n) (lexString (drop 4 r)) else Inl Unmodelled)
             else
               (case escapeChar e of
                  None \<Rightarrow> Inl SyntaxError
                | Some x \<Rightarrow> consChar x (lexString r)))
      else if of_char c < (32::nat) then Inl SyntaxError
      else consChar c (lexString cs))"

text \<open>A fraction: a dot and at least one digit. Its digits, and the text after it.\<close>

definition lexFraction :: "string \<Rightarrow> (string \<times> string) option" where
  "lexFraction s =
     (case s of
        [] \<Rightarrow> Some ([], s)
      | c # r \<Rightarrow>
          if c = CHR ''.'' then
            (if takeWhile isDigit r = [] then None else Some (takeWhile isDigit r, dropWhile isDigit r))
          else Some ([], s))"

definition lexExponent :: "string \<Rightarrow> (int \<times> string) option" where
  "lexExponent s =
     (case s of
        [] \<Rightarrow> Some (0, s)
      | c # r \<Rightarrow>
          if c = CHR ''e'' \<or> c = CHR ''E'' then
            (let neg = (r \<noteq> [] \<and> hd r = CHR ''-'');
                 r' = (if r \<noteq> [] \<and> (hd r = CHR ''-'' \<or> hd r = CHR ''+'') then tl r else r);
                 ds = takeWhile isDigit r'
             in if ds = [] then None
                else Some (if neg then - int (digitsValue ds) else int (digitsValue ds), dropWhile isDigit r'))
          else Some (0, s))"

definition lexUnsigned :: "string \<Rightarrow> (real \<times> string) option" where
  "lexUnsigned s =
     (let ip = takeWhile isDigit s
      in if ip = [] \<or> (hd ip = CHR ''0'' \<and> tl ip \<noteq> []) then None
         else
           (case lexFraction (dropWhile isDigit s) of
              None \<Rightarrow> None
            | Some (fp, r2) \<Rightarrow>
                (case lexExponent r2 of
                   None \<Rightarrow> None
                 | Some (e, rest) \<Rightarrow>
                     Some ((real (digitsValue ip) + real (digitsValue fp) / 10 ^ length fp) * 10 powi e,
                           rest))))"

definition lexNumber :: "string \<Rightarrow> (real \<times> string) option" where
  "lexNumber s =
     (case s of
        [] \<Rightarrow> None
      | c # r \<Rightarrow>
          if c = CHR ''-'' then map_option (\<lambda>(v, rest). (- v, rest)) (lexUnsigned r)
          else lexUnsigned s)"

lemma lexFraction_shorter: "lexFraction s = Some (fp, r) \<Longrightarrow> length r \<le> length s"
  by (auto simp: lexFraction_def le_SucI length_dropWhile_le split: list.splits if_splits)

lemma lexExponent_shorter: "lexExponent s = Some (e, r) \<Longrightarrow> length r \<le> length s"
proof (cases s)
  case Nil
  then show "lexExponent s = Some (e, r) \<Longrightarrow> length r \<le> length s" by (simp add: lexExponent_def)
next
  case (Cons c t)
  assume a: "lexExponent s = Some (e, r)"
  have 1: "length (dropWhile isDigit t) \<le> Suc (length t)"
    by (rule le_SucI) (rule length_dropWhile_le)
  have "length (dropWhile isDigit (tl t)) \<le> length (tl t)" by (rule length_dropWhile_le)
  then have 2: "length (dropWhile isDigit (tl t)) \<le> Suc (length t)" by simp
  from a Cons 1 2 show "length r \<le> length s"
    by (auto simp: lexExponent_def Let_def split: if_splits)
qed

lemma lexUnsigned_shorter:
  assumes "lexUnsigned s = Some (v, r)"
  shows "length r < length s"
proof -
  from assms have ip: "takeWhile isDigit s \<noteq> []"
    by (auto simp: lexUnsigned_def Let_def split: if_splits)
  from assms obtain fp r2 e where f: "lexFraction (dropWhile isDigit s) = Some (fp, r2)"
    and x: "lexExponent r2 = Some (e, r)"
    by (auto simp: lexUnsigned_def Let_def split: if_splits option.splits)
  have "length (takeWhile isDigit s) + length (dropWhile isDigit s) = length s"
    by (metis length_append takeWhile_dropWhile_id)
  with ip have "length (dropWhile isDigit s) < length s"
    by (cases "takeWhile isDigit s") auto
  with lexFraction_shorter [OF f] lexExponent_shorter [OF x] show ?thesis by simp
qed

lemma lexNumber_shorter: "lexNumber s = Some (v, r) \<Longrightarrow> length r < length s"
  by (cases s) (auto simp: lexNumber_def split: if_splits dest!: lexUnsigned_shorter)

definition isJSONWhiteSpace :: "char \<Rightarrow> bool" where
  "isJSONWhiteSpace c = (c \<in> {CHR 0x09, CHR 0x0A, CHR 0x0D, CHR 0x20})"

definition consToken :: "token \<Rightarrow> error + token list \<Rightarrow> error + token list" where
  "consToken t r = (case r of Inl e \<Rightarrow> Inl e | Inr ts \<Rightarrow> Inr (t # ts))"

lemma lexString_shorter: "lexString s = Inr (t, r) \<Longrightarrow> length r < length s"
proof (induction s arbitrary: t r rule: lexString.induct)
  case 1
  then show ?case by simp
next
  case (2 c cs)
  show ?case
  proof (cases "c = CHR 0x22")
    case True
    with "2.prems" show ?thesis by simp
  next
    case nq: False
    show ?thesis
    proof (cases "c = CHR 0x5C")
      case True
      then obtain e r' where cs: "cs = e # r'" using "2.prems" by (cases cs) auto
      show ?thesis
      proof (cases "e = CHR ''u''")
        case u: True
        from "2.prems" True cs u obtain n where n: "hex4 (take 4 r') = Some n" "n < 256"
          by (auto split: option.splits if_splits)
        with "2.prems" True cs u obtain t' where "lexString (drop 4 r') = Inr (t', r)"
          by (auto simp: consChar_def split: sum.splits)
        from "2.IH"(1) [OF nq True cs u n(1) n(2) this] show ?thesis using cs by simp
      next
        case nu: False
        from "2.prems" True cs nu obtain x where x: "escapeChar e = Some x"
          by (auto split: option.splits)
        with "2.prems" True cs nu obtain t' where "lexString r' = Inr (t', r)"
          by (auto simp: consChar_def split: sum.splits)
        from "2.IH"(2) [OF nq True cs nu x this] show ?thesis using cs by simp
      qed
    next
      case nb: False
      with "2.prems" nq have nctl: "\<not> of_char c < (32::nat)" by (auto split: if_splits)
      with "2.prems" nq nb obtain t' where "lexString cs = Inr (t', r)"
        by (auto simp: consChar_def split: sum.splits)
      from "2.IH"(3) [OF nq nb nctl this] show ?thesis by simp
    qed
  qed
qed


definition punctuation :: "char \<Rightarrow> token option" where
  "punctuation c =
     (if c = CHR ''['' then Some TLBracket
      else if c = CHR '']'' then Some TRBracket
      else if c = CHR ''{'' then Some TLBrace
      else if c = CHR ''}'' then Some TRBrace
      else if c = CHR '','' then Some TComma
      else if c = CHR '':'' then Some TColon
      else None)"

text \<open>A literal name at the head of a text: its value and its length.\<close>

definition literalName :: "string \<Rightarrow> (jsval \<times> nat) option" where
  "literalName s =
     (if prefix ''null'' s then Some (JNull, 4)
      else if prefix ''true'' s then Some (JBool True, 4)
      else if prefix ''false'' s then Some (JBool False, 5)
      else None)"

text \<open>The token at the head of a non-empty text (none for white space), and the text after it.\<close>

definition nextToken :: "char \<Rightarrow> string \<Rightarrow> error + token option \<times> string" where
  "nextToken c cs =
     (if isJSONWhiteSpace c then Inr (None, cs)
      else if punctuation c \<noteq> None then Inr (punctuation c, cs)
      else if c = CHR 0x22 then
        (case lexString cs of
           Inl e \<Rightarrow> Inl e
         | Inr (t, rest) \<Rightarrow> Inr (Some (TScalar (JString t)), rest))
      else if c = CHR ''-'' \<or> isDigit c then
        (case lexNumber (c # cs) of
           None \<Rightarrow> Inl SyntaxError
         | Some (v, rest) \<Rightarrow> Inr (Some (TScalar (JNumber (Num v))), rest))
      else
        (case literalName (c # cs) of
           None \<Rightarrow> Inl SyntaxError
         | Some (v, n) \<Rightarrow> Inr (Some (TScalar v), drop n (c # cs))))"

lemma literalName_positive: "literalName s = Some (v, n) \<Longrightarrow> 0 < n"
  by (simp add: literalName_def split: if_splits)

lemma nextToken_shorter:
  assumes "nextToken c cs = Inr (t, r)"
  shows "length r < Suc (length cs)"
proof (cases "isJSONWhiteSpace c \<or> punctuation c \<noteq> None")
  case True
  with assms have "r = cs" by (auto simp: nextToken_def split: if_splits)
  then show ?thesis by simp
next
  case easy: False
  show ?thesis
  proof (cases "c = CHR 0x22")
    case True
    with assms easy obtain t' where "lexString cs = Inr (t', r)"
      by (simp add: nextToken_def split: sum.splits prod.splits)
    from lexString_shorter [OF this] show ?thesis by simp
  next
    case nq: False
    show ?thesis
    proof (cases "c = CHR ''-'' \<or> isDigit c")
      case True
      with assms easy nq obtain v where "lexNumber (c # cs) = Some (v, r)"
        by (simp add: nextToken_def split: option.splits prod.splits)
      from lexNumber_shorter [OF this] show ?thesis by simp
    next
      case False
      with assms easy nq obtain v n where n: "literalName (c # cs) = Some (v, n)" and r: "r = drop n (c # cs)"
        by (simp add: nextToken_def split: option.splits prod.splits)
      from literalName_positive [OF n] r show ?thesis by simp
    qed
  qed
qed

function tokenize :: "string \<Rightarrow> error + token list" where
  "tokenize [] = Inr []"
| "tokenize (c # cs) =
     (case nextToken c cs of
        Inl e \<Rightarrow> Inl e
      | Inr (None, rest) \<Rightarrow> tokenize rest
      | Inr (Some t, rest) \<Rightarrow> consToken t (tokenize rest))"
  by pat_completeness auto
termination
  by (relation "measure length") (auto dest: nextToken_shorter)

subsection \<open>\<^verbatim>\<open>JSON.parse\<close>\<close>

text \<open>
  The parser reads the tokens from left to right with a stack of the arrays and objects that
  are open: \<open>FArray es\<close> is an array with the elements \<open>es\<close> read so far, \<open>FObject ms\<close> an
  object between two members, \<open>FMember ms k\<close> an object reading the value of key \<open>k\<close>. The
  state says what may come next.
\<close>

datatype frame =
    FArray "jsval list"
  | FObject "(string \<times> jsval) list"
  | FMember "(string \<times> jsval) list" string

datatype pstate = Start | FirstElem | AfterValue | FirstKey | NextKey | AfterKey | Done jsval

fun putMember :: "string \<Rightarrow> jsval \<Rightarrow> (string \<times> jsval) list \<Rightarrow> (string \<times> jsval) list" where
  "putMember k v [] = [(k, v)]"
| "putMember k v (m # ms) = (if fst m = k then (k, v) # ms else m # putMember k v ms)"

fun complete :: "jsval \<Rightarrow> frame list \<Rightarrow> (pstate \<times> frame list) option" where
  "complete v [] = Some (Done v, [])"
| "complete v (FArray es # st) = Some (AfterValue, FArray (es @ [v]) # st)"
| "complete v (FMember ms k # st) = Some (AfterValue, FObject (putMember k v ms) # st)"
| "complete v (FObject ms # st) = None"

fun shift :: "pstate \<Rightarrow> frame list \<Rightarrow> token \<Rightarrow> (pstate \<times> frame list) option" where
  "shift Start st (TScalar v) = complete v st"
| "shift Start st TLBracket = Some (FirstElem, FArray [] # st)"
| "shift Start st TLBrace = Some (FirstKey, FObject [] # st)"
| "shift FirstElem st (TScalar v) = complete v st"
| "shift FirstElem st TLBracket = Some (FirstElem, FArray [] # st)"
| "shift FirstElem st TLBrace = Some (FirstKey, FObject [] # st)"
| "shift FirstElem (FArray es # st) TRBracket = complete (JArray es) st"
| "shift AfterValue (FArray es # st) TComma = Some (Start, FArray es # st)"
| "shift AfterValue (FArray es # st) TRBracket = complete (JArray es) st"
| "shift AfterValue (FObject ms # st) TComma = Some (NextKey, FObject ms # st)"
| "shift AfterValue (FObject ms # st) TRBrace = complete (JObject ms) st"
| "shift FirstKey (FObject ms # st) (TScalar (JString k)) = Some (AfterKey, FMember ms k # st)"
| "shift FirstKey (FObject ms # st) TRBrace = complete (JObject ms) st"
| "shift NextKey (FObject ms # st) (TScalar (JString k)) = Some (AfterKey, FMember ms k # st)"
| "shift AfterKey st TColon = Some (Start, st)"
| "shift _ _ _ = None"

fun parseTokens :: "pstate \<Rightarrow> frame list \<Rightarrow> token list \<Rightarrow> error + jsval" where
  "parseTokens (Done v) st [] = Inr v"
| "parseTokens p st [] = Inl SyntaxError"
| "parseTokens p st (t # ts) =
     (case shift p st t of
        None \<Rightarrow> Inl SyntaxError
      | Some (p', st') \<Rightarrow> parseTokens p' st' ts)"

definition JSON_parse :: "string \<Rightarrow> error + jsval" where
  "JSON_parse text = (case tokenize text of Inl e \<Rightarrow> Inl e | Inr ts \<Rightarrow> parseTokens Start [] ts)"

lemmas JSON_parse_eval =
  JSON_parse_def nextToken_def punctuation_def literalName_def isJSONWhiteSpace_def isDigit_def
  lexNumber_def lexUnsigned_def lexFraction_def lexExponent_def digitsValue_def consToken_def
  consChar_def escapeChar_def hex4_def hexDigit_def

subsection \<open>\<^verbatim>\<open>JSON.stringify\<close>\<close>

text \<open>
  The text of a finite number is the shortest decimal that reads back as the same binary64
  value. That depends on the binary representation, which is not modelled: the function
  that writes a finite number is a parameter, \<open>numberToString\<close>. \<open>NaN\<close> and the infinities
  are written \<^verbatim>\<open>null\<close>.
\<close>

definition hexChar :: "nat \<Rightarrow> char" where
  "hexChar n = ''0123456789abcdef'' ! (n mod 16)"

definition quoteChar :: "char \<Rightarrow> string" where
  "quoteChar c =
     (if c = CHR 0x22 then [CHR 0x5C, CHR 0x22]
      else if c = CHR 0x5C then [CHR 0x5C, CHR 0x5C]
      else if c = CHR 0x08 then [CHR 0x5C, CHR ''b'']
      else if c = CHR 0x0C then [CHR 0x5C, CHR ''f'']
      else if c = CHR 0x0A then [CHR 0x5C, CHR ''n'']
      else if c = CHR 0x0D then [CHR 0x5C, CHR ''r'']
      else if c = CHR 0x09 then [CHR 0x5C, CHR ''t'']
      else if of_char c < (32::nat) then
        [CHR 0x5C, CHR ''u'', CHR ''0'', CHR ''0'', hexChar (of_char c div 16), hexChar (of_char c)]
      else [c])"

definition quoteJSONString :: "string \<Rightarrow> string" where
  "quoteJSONString s = [CHR 0x22] @ concat (map quoteChar s) @ [CHR 0x22]"

fun joinComma :: "string list \<Rightarrow> string" where
  "joinComma [] = []"
| "joinComma [x] = x"
| "joinComma (x # y # ys) = x @ '','' @ joinComma (y # ys)"

fun JSON_stringify :: "(real \<Rightarrow> string) \<Rightarrow> jsval \<Rightarrow> string" where
  "JSON_stringify numberToString JNull = ''null''"
| "JSON_stringify numberToString (JBool b) = (if b then ''true'' else ''false'')"
| "JSON_stringify numberToString (JNumber (Num a)) = numberToString a"
| "JSON_stringify numberToString (JNumber _) = ''null''"
| "JSON_stringify numberToString (JString s) = quoteJSONString s"
| "JSON_stringify numberToString (JArray vs) =
     ''['' @ joinComma (map (JSON_stringify numberToString) vs) @ '']''"
| "JSON_stringify numberToString (JObject ms) =
     ''{'' @ joinComma (map (\<lambda>m. quoteJSONString (fst m) @ '':'' @ JSON_stringify numberToString (snd m)) ms)
       @ ''}''"

text \<open>The values that \<^verbatim>\<open>||\<close> and \<^verbatim>\<open>!\<close> take for false.\<close>

fun truthy :: "jsval \<Rightarrow> bool" where
  "truthy JNull = False"
| "truthy (JBool b) = b"
| "truthy (JNumber n) = truthy_number n"
| "truthy (JString s) = (s \<noteq> [])"
| "truthy (JArray vs) = True"
| "truthy (JObject ms) = True"

subsection \<open>Reading back a pair of numbers\<close>











section \<open>The page address\<close>

text \<open>
  The component reads and writes the query parameters of the page address through
  \<^verbatim>\<open>URL.searchParams\<close>. The address is modelled by the list of its decoded parameters, in
  their order: \<^verbatim>\<open>get\<close> returns the first value of a key, \<^verbatim>\<open>set\<close> replaces the first
  entry of the key and deletes its other entries, or appends the entry when the key is new.
  The rest of the address is never touched by the component.
\<close>

type_synonym searchParams = "(string \<times> string) list"

definition get :: "searchParams \<Rightarrow> string \<Rightarrow> string option" where
  "get ps key = map_of ps key"

fun set_param :: "searchParams \<Rightarrow> string \<Rightarrow> string \<Rightarrow> searchParams" where
  "set_param [] key v = [(key, v)]"
| "set_param (p # ps) key v =
     (if fst p = key then (key, v) # filter (\<lambda>q. fst q \<noteq> key) ps else p # set_param ps key v)"


section \<open>Settings and their startup values\<close>

text \<open>
  Lines 11 to 37: the eight settings are refs, seeded at startup from the page address.
  \<^verbatim>\<open>loadStringParam\<close> returns \<^verbatim>\<open>null\<close> for a parameter that is absent or empty, and
  \<^verbatim>\<open>loadObjectParam\<close> returns \<^verbatim>\<open>null\<close> for those and the parsed JSON otherwise; it does
  not catch what \<^verbatim>\<open>JSON.parse\<close> throws. Each result goes through \<^verbatim>\<open>|| default\<close>.
\<close>

record settings =
  name :: string
  fontLoadingCode :: string
  fontFamily :: string
  isItalic :: string
  isBold :: string
  fontColor :: string
  fontSize :: string
  coordinates :: jsval

definition loadStringParam :: "searchParams \<Rightarrow> string \<Rightarrow> string option" where
  "loadStringParam url key =
     (case get url key of
        None \<Rightarrow> None
      | Some v \<Rightarrow> if v = [] then None else Some v)"

definition loadObjectParam :: "searchParams \<Rightarrow> string \<Rightarrow> error + jsval" where
  "loadObjectParam url key =
     (case get url key of
        None \<Rightarrow> Inr JNull
      | Some v \<Rightarrow> if v = [] then Inr JNull else JSON_parse v)"

definition or_string :: "string option \<Rightarrow> string \<Rightarrow> string" where
  "or_string a d = (case a of None \<Rightarrow> d | Some v \<Rightarrow> if v = [] then d else v)"

definition or_value :: "jsval \<Rightarrow> jsval \<Rightarrow> jsval" where
  "or_value a d = (if truthy a then a else d)"

definition loadSettings :: "searchParams \<Rightarrow> error + settings" where
  "loadSettings currentUrl =
     (case loadObjectParam currentUrl ''coordinates'' of
        Inl e \<Rightarrow> Inl e
      | Inr c \<Rightarrow>
          Inr \<lparr> name = or_string (loadStringParam currentUrl ''name'') ''Tan Ah Kow'',
                fontLoadingCode = or_string (loadStringParam currentUrl ''fontLoadingCode'') '''',
                fontFamily = or_string (loadStringParam currentUrl ''fontFamily'') ''sans-serif'',
                isItalic = or_string (loadStringParam currentUrl ''isItalic'') '''',
                isBold = or_string (loadStringParam currentUrl ''isBold'') '''',
                fontColor = or_string (loadStringParam currentUrl ''fontColor'') ''#000000'',
                fontSize = or_string (loadStringParam currentUrl ''fontSize'') ''14'',
                coordinates = or_value c (JArray [JNumber (Num (1/2)), JNumber (Num (1/2))]) \<rparr>)"

text \<open>
  Lines 107 to 129, the body of the debounced \<^verbatim>\<open>saveSettings\<close>: every entry of
  \<^verbatim>\<open>settingsToSave\<close> is written to the address, a string as it is and any other value
  through \<^verbatim>\<open>JSON.stringify\<close>; the result replaces the page address.
\<close>

definition settingsToSave :: "'a settings_scheme \<Rightarrow> (string \<times> jsval) list" where
  "settingsToSave s =
     [(''fontFamily'', JString (fontFamily s)),
      (''isBold'', JString (isBold s)),
      (''isItalic'', JString (isItalic s)),
      (''fontLoadingCode'', JString (fontLoadingCode s)),
      (''fontSize'', JString (fontSize s)),
      (''fontColor'', JString (fontColor s)),
      (''name'', JString (name s)),
      (''coordinates'', coordinates s)]"

definition saveEntry :: "(real \<Rightarrow> string) \<Rightarrow> string \<times> jsval \<Rightarrow> searchParams \<Rightarrow> searchParams" where
  "saveEntry numberToString kv url =
     (case snd kv of
        JString v \<Rightarrow> set_param url (fst kv) v
      | v \<Rightarrow> set_param url (fst kv) (JSON_stringify numberToString v))"

definition saveSettings :: "(real \<Rightarrow> string) \<Rightarrow> searchParams \<Rightarrow> 'a settings_scheme \<Rightarrow> searchParams" where
  "saveSettings numberToString location s = fold (saveEntry numberToString) (settingsToSave s) location"

text \<open>
  \<open>tenthsToString\<close> writes a multiple of one tenth between 0.1 and 0.9 the way JavaScript writes
  that number (\<^verbatim>\<open>0.5\<close> for a half). It stands in for \<open>numberToString\<close> where an example is run.
\<close>

definition tenthsToString :: "real \<Rightarrow> string" where
  "tenthsToString a = ''0.'' @ [''0123456789'' ! nat \<lfloor>a * 10\<rfloor>]"

text \<open>The settings of the specification's example, and the settings of an empty address.\<close>

definition exampleSettings :: settings where
  "exampleSettings =
     \<lparr> name = ''Jane Doe'', fontLoadingCode = '''', fontFamily = ''sans-serif'', isItalic = '''',
       isBold = '''', fontColor = ''#000000'', fontSize = ''30'',
       coordinates = JArray [JNumber (Num (1/2)), JNumber (Num (1/10))] \<rparr>"

definition defaultSettings :: settings where
  "defaultSettings =
     \<lparr> name = ''Tan Ah Kow'', fontLoadingCode = '''', fontFamily = ''sans-serif'', isItalic = '''',
       isBold = '''', fontColor = ''#000000'', fontSize = ''14'',
       coordinates = JArray [JNumber (Num (1/2)), JNumber (Num (1/2))] \<rparr>"

lemma loadSettings_example:
  "loadSettings [(''name'', ''Jane Doe'')] = Inr (defaultSettings\<lparr>name := ''Jane Doe''\<rparr>)"
  \<open>loadSettings [(''fontLoadingCode'', ''<link href="f.css">'')] =
     Inr (defaultSettings\<lparr>fontLoadingCode := ''<link href="f.css">''\<rparr>)\<close>
  "loadSettings [(''coordinates'', ''[5,7]'')] =
     Inr (defaultSettings\<lparr>coordinates := JArray [JNumber (Num 5), JNumber (Num 7)]\<rparr>)"
  "loadSettings [(''fontSize'', ''abc'')] = Inr (defaultSettings\<lparr>fontSize := ''abc''\<rparr>)"
  by (simp_all add: loadSettings_def loadObjectParam_def loadStringParam_def or_string_def or_value_def
      get_def defaultSettings_def JSON_parse_eval)







section \<open>The card renderer\<close>


definition effectiveSize :: "string \<Rightarrow> nat \<Rightarrow> number" where
  "effectiveSize sizeText height =
     times (divide_num (or_number (parseFloat sizeText) (Num 14)) (Num 600)) (Num (real height))"



text \<open>
  The effective size as the specification words it: the numeric value of the size text, or
  14 when the text is unparsable, divided by 600 and multiplied by the height.
\<close>

definition claimedEffectiveSize :: "string \<Rightarrow> nat \<Rightarrow> number" where
  "claimedEffectiveSize sizeText height =
     times (divide_num (case parseFloat sizeText of NaN \<Rightarrow> Num 14 | v \<Rightarrow> v) (Num 600)) (Num (real height))"

lemmas parseFloat_eval =
  parseFloat_def unsignedLiteral_def exponentPart_def isWhiteSpace_def isDigit_def digitsValue_def



lemma times_double: "times v (Num (real (2 * h))) = times (Num 2) (times v (Num (real h)))"
  by (cases v) (simp_all add: signedInfinity_def)

text \<open>
  Claim C6, amended. The effective font size is the number that \<^verbatim>\<open>parseFloat\<close> reads from
  the size text, or 14 when that is \<open>NaN\<close> or zero, divided by 600 and multiplied by the
  image height; doubling the height doubles it.
\<close>

theorem effectiveSize_scales_with_height:
  "effectiveSize sizeText h =
     times (divide_num (if parseFloat sizeText = NaN \<or> parseFloat sizeText = Num 0 then Num 14
                        else parseFloat sizeText) (Num 600)) (Num (real h)) \<and>
   effectiveSize sizeText (2 * h) = times (Num 2) (effectiveSize sizeText h)"
proof
  show "effectiveSize sizeText h =
     times (divide_num (if parseFloat sizeText = NaN \<or> parseFloat sizeText = Num 0 then Num 14
                        else parseFloat sizeText) (Num 600)) (Num (real h))"
    by (cases "parseFloat sizeText") (simp_all add: effectiveSize_def or_number_def)
  show "effectiveSize sizeText (2 * h) = times (Num 2) (effectiveSize sizeText h)"
    unfolding effectiveSize_def by (rule times_double)
qed

text \<open>
  Claim C6 as stated fails for the size text \<^verbatim>\<open>0\<close>, which parses to zero: \<^verbatim>\<open>||\<close> takes 14
  for it, and on an image 600 pixels high the text is drawn at 14 pixels, not at 0.
\<close>

theorem fontSize_zero_renders_as_14:
  "effectiveSize ''0'' 600 = Num 14 \<and> claimedEffectiveSize ''0'' 600 = Num 0"
  by (simp add: effectiveSize_def claimedEffectiveSize_def or_number_def parseFloat_eval)

text \<open>The example of the specification, and the fallback for a text that is no number.\<close>

lemma effectiveSize_example: "effectiveSize ''30'' 800 = Num 40 \<and> effectiveSize ''abc'' 600 = Num 14"
  by (simp add: effectiveSize_def or_number_def parseFloat_eval)

section \<open>Loading a font\<close>

subsection \<open>The stylesheet URL in the pasted markup\<close>

text \<open>
  Lines 139 to 141:
  \<^verbatim>\<open>
  const matches = code.match(/<link href="(.*)"/)
  const url = matches?.[1]
  \<close>
  The pattern is tried at every position of the markup from left to right, and the first
  position where it matches wins. At a position it asks for the text \<^verbatim>\<open><link href="\<close>, then
  for the group \<^verbatim>\<open>(.*)\<close>, then for a double quote. The dot matches every character but a line
  terminator and the star is greedy: \<open>dotStarQuote\<close> first lets the group take one more
  character and gives that character back only when the rest cannot be matched.
\<close>

definition isLineTerminator :: "char \<Rightarrow> bool" where
  "isLineTerminator c = (c = CHR 0x0A \<or> c = CHR 0x0D)"

fun dotStarQuote :: "string \<Rightarrow> string option" where
  "dotStarQuote [] = None"
| "dotStarQuote (c # cs) =
     (if isLineTerminator c then None
      else
        (case dotStarQuote cs of
           Some g \<Rightarrow> Some (c # g)
         | None \<Rightarrow> if c = CHR 0x22 then Some [] else None))"

definition linkHref :: string where
  \<open>linkHref = ''<link href="''\<close>

definition matchAt :: "string \<Rightarrow> string option" where
  "matchAt s = (if prefix linkHref s then dotStarQuote (drop (length linkHref) s) else None)"

fun match_link :: "string \<Rightarrow> string option" where
  "match_link [] = None"
| "match_link (c # cs) = (case matchAt (c # cs) of Some g \<Rightarrow> Some g | None \<Rightarrow> match_link cs)"

text \<open>
  The same in words that do not follow the matcher: \<open>firstLink\<close> is the text after the first
  \<^verbatim>\<open><link href="\<close> that has a double quote later on its line, and \<open>hrefValue\<close> the value of
  the attribute that starts there, which ends before the next double quote.
\<close>

definition restOfLine :: "string \<Rightarrow> string" where
  "restOfLine s = takeWhile (\<lambda>c. \<not> isLineTerminator c) s"

fun firstLink :: "string \<Rightarrow> string option" where
  "firstLink [] = None"
| "firstLink (c # cs) =
     (if prefix linkHref (c # cs) \<and> CHR 0x22 \<in> set (restOfLine (drop (length linkHref) (c # cs)))
      then Some (drop (length linkHref) (c # cs))
      else firstLink cs)"

definition hrefValue :: "string \<Rightarrow> string" where
  "hrefValue t = takeWhile (\<lambda>c. c \<noteq> CHR 0x22) t"

lemma dotStarQuote_None: "dotStarQuote s = None \<longleftrightarrow> CHR 0x22 \<notin> set (restOfLine s)"
  by (induction s) (auto simp: restOfLine_def split: option.splits)

lemma dotStarQuote_extends_value: "dotStarQuote t = Some g \<Longrightarrow> prefix (hrefValue t) g"
  by (induction t arbitrary: g) (auto simp: hrefValue_def split: option.splits if_splits)

lemma dotStarQuote_single_quote:
  "length (filter (\<lambda>c. c = CHR 0x22) (restOfLine t)) = 1 \<Longrightarrow> dotStarQuote t = Some (hrefValue t)"
proof (induction t)
  case Nil
  then show ?case by (simp add: restOfLine_def)
next
  case (Cons c cs)
  from Cons.prems have nlt: "\<not> isLineTerminator c" by (auto simp: restOfLine_def)
  show ?case
  proof (cases "c = CHR 0x22")
    case True
    with Cons.prems nlt have "filter (\<lambda>c. c = CHR 0x22) (restOfLine cs) = []"
      by (simp add: restOfLine_def)
    then have "CHR 0x22 \<notin> set (restOfLine cs)" by (auto simp: filter_empty_conv)
    then have "dotStarQuote cs = None" by (simp add: dotStarQuote_None)
    with True nlt show ?thesis by (simp add: hrefValue_def)
  next
    case False
    with Cons.prems nlt have "length (filter (\<lambda>c. c = CHR 0x22) (restOfLine cs)) = 1"
      by (simp add: restOfLine_def)
    from Cons.IH [OF this] False nlt show ?thesis by (simp add: hrefValue_def)
  qed
qed

lemma match_link_firstLink:
  "match_link code = (case firstLink code of None \<Rightarrow> None | Some t \<Rightarrow> dotStarQuote t)"
proof (induction code)
  case Nil
  show ?case by simp
next
  case (Cons c cs)
  show ?case
  proof (cases "matchAt (c # cs)")
    case None
    then have "\<not> (prefix linkHref (c # cs) \<and> CHR 0x22 \<in> set (restOfLine (drop (length linkHref) (c # cs))))"
      by (auto simp: matchAt_def dotStarQuote_None split: if_splits)
    with None Cons show ?thesis by auto
  next
    case (Some g)
    then have "prefix linkHref (c # cs)" "dotStarQuote (drop (length linkHref) (c # cs)) = Some g"
      by (auto simp: matchAt_def split: if_splits)
    moreover from this have "CHR 0x22 \<in> set (restOfLine (drop (length linkHref) (c # cs)))"
      by (metis dotStarQuote_None option.distinct(1))
    ultimately show ?thesis using Some by simp
  qed
qed

subsection \<open>The polling loop\<close>

text \<open>
  Lines 162 to 174 of \<^verbatim>\<open>App.vue\<close>:
  \<^verbatim>\<open>
  const LIVES = 5
  let lastSize = -1
  let livesRemaining = LIVES
  for (; livesRemaining > 0;) {
    const sz = document.fonts.size
    if (sz !== lastSize) { livesRemaining = LIVES; lastSize = sz }
    else { livesRemaining -= 1 }
    await new Promise((resolve) => setTimeout(resolve, 500))
  }
  \<close>
  The browser's font set is the environment of the loop: \<open>sizes i\<close> is the value that
  \<^verbatim>\<open>document.fonts.size\<close> has when the loop reads it for the \<open>i\<close>-th time (counting
  from 0). Every iteration reads the size once and then waits once for 500ms, so the
  iteration counter \<open>i\<close> is both the number of polls made and the number of intervals
  waited. The font set may change for ever, and then the loop does not end: the loop is a
  partial function, and \<open>None\<close> stands for a loop that never leaves. On leaving, the model
  returns the number of iterations made.
\<close>

definition LIVES :: nat where
  "LIVES = 5"

partial_function (option) pollFrom :: "(nat \<Rightarrow> nat) \<Rightarrow> nat \<Rightarrow> int \<Rightarrow> nat \<Rightarrow> nat option" where
  "pollFrom sizes i lastSize livesRemaining =
     (if livesRemaining > 0 then
        (let sz = int (sizes i) in
           if sz \<noteq> lastSize then pollFrom sizes (i + 1) sz LIVES
           else pollFrom sizes (i + 1) lastSize (livesRemaining - 1))
      else Some i)"

definition pollFonts :: "(nat \<Rightarrow> nat) \<Rightarrow> nat option" where
  "pollFonts sizes = pollFrom sizes 0 (- 1) LIVES"

text \<open>
  Poll \<open>i\<close> observes a change when the size it reads differs from the one read by the poll
  before it. The first poll compares against the initial \<open>lastSize = -1\<close>, which no size
  equals, so it always observes a change.
\<close>

definition changedAt :: "(nat \<Rightarrow> nat) \<Rightarrow> nat \<Rightarrow> bool" where
  "changedAt sizes i = (i = 0 \<or> sizes i \<noteq> sizes (i - 1))"

lemma pollFrom_settles:
  assumes stable: "\<forall>i\<ge>N. sizes i = sizes N"
  shows "0 < i \<Longrightarrow> lastSize = int (sizes (i - 1)) \<Longrightarrow> j < i \<Longrightarrow> changedAt sizes j \<Longrightarrow>
         (\<forall>k. j < k \<and> k < i \<longrightarrow> \<not> changedAt sizes k) \<Longrightarrow> lives + (i - 1 - j) = LIVES \<Longrightarrow>
         \<exists>n j'. pollFrom sizes i lastSize lives = Some n \<and> n = j' + LIVES + 1 \<and> j' \<le> N \<and>
                 changedAt sizes j' \<and> (\<forall>k. j' < k \<and> k < n \<longrightarrow> \<not> changedAt sizes k)"
proof (induction "(N + 1 - i) * (LIVES + 1) + lives" arbitrary: i lastSize j lives rule: less_induct)
  case less
  have jN: "j \<le> N"
  proof (rule ccontr)
    assume "\<not> j \<le> N"
    then have "N \<le> j - 1" "N \<le> j" "j \<noteq> 0" by simp_all
    with stable have "sizes j = sizes (j - 1)" by metis
    with \<open>j \<noteq> 0\<close> less.prems(4) show False by (simp add: changedAt_def)
  qed
  show ?case
  proof (cases "lives = 0")
    case True
    with less.prems have "i = j + LIVES + 1" by simp
    moreover from True have "pollFrom sizes i lastSize lives = Some i"
      by (subst pollFrom.simps) simp
    ultimately show ?thesis using less.prems jN by blast
  next
    case False
    show ?thesis
    proof (cases "int (sizes i) \<noteq> lastSize")
      case True
      then have ch: "changedAt sizes i" using less.prems by (simp add: changedAt_def)
      have iN: "i \<le> N"
      proof (rule ccontr)
        assume "\<not> i \<le> N"
        then have "N \<le> i - 1" "N \<le> i" by simp_all
        with stable have "sizes i = sizes (i - 1)" by metis
        with True less.prems(2) show False by simp
      qed
      have m: "(N + 1 - (i + 1)) * (LIVES + 1) + LIVES < (N + 1 - i) * (LIVES + 1) + lives"
      proof -
        from iN have "N + 1 - i = Suc (N + 1 - (i + 1))" by simp
        then show ?thesis using False by simp
      qed
      have "\<exists>n j'. pollFrom sizes (i + 1) (int (sizes i)) LIVES = Some n \<and> n = j' + LIVES + 1 \<and>
              j' \<le> N \<and> changedAt sizes j' \<and> (\<forall>k. j' < k \<and> k < n \<longrightarrow> \<not> changedAt sizes k)"
        by (rule less.hyps [OF m, where j = i]) (use ch in auto)
      moreover have "pollFrom sizes i lastSize lives = pollFrom sizes (i + 1) (int (sizes i)) LIVES"
        using False True by (subst pollFrom.simps) simp
      ultimately show ?thesis by simp
    next
      case same: False
      then have nch: "\<not> changedAt sizes i" using less.prems by (simp add: changedAt_def)
      have m: "(N + 1 - (i + 1)) * (LIVES + 1) + (lives - 1) < (N + 1 - i) * (LIVES + 1) + lives"
      proof -
        have "(N + 1 - (i + 1)) * (LIVES + 1) \<le> (N + 1 - i) * (LIVES + 1)"
          by (rule mult_le_mono1) simp
        then show ?thesis using False by linarith
      qed
      have quiet: "\<forall>k. j < k \<and> k < i + 1 \<longrightarrow> \<not> changedAt sizes k"
        using less.prems(5) nch by (metis less_antisym add.commute plus_1_eq_Suc)
      have "\<exists>n j'. pollFrom sizes (i + 1) lastSize (lives - 1) = Some n \<and> n = j' + LIVES + 1 \<and>
              j' \<le> N \<and> changedAt sizes j' \<and> (\<forall>k. j' < k \<and> k < n \<longrightarrow> \<not> changedAt sizes k)"
      proof (rule less.hyps [OF m, where j = j])
        show "lastSize = int (sizes (i + 1 - 1))" using same by simp
        show "lives - 1 + (i + 1 - 1 - j) = LIVES" using less.prems False by simp
      qed (use less.prems quiet in auto)
      moreover have "pollFrom sizes i lastSize lives = pollFrom sizes (i + 1) lastSize (lives - 1)"
        using False same by (subst pollFrom.simps) simp
      ultimately show ?thesis by simp
    qed
  qed
qed

lemma pollFonts_example: "pollFonts (\<lambda>i. min i 3) = Some 9"
  by (simp add: pollFonts_def pollFrom.simps LIVES_def)

text \<open>
  Claim C4. When the sequence of font-set sizes is constant from some poll \<open>N\<close> on, the
  polling loop ends. It makes \<open>j + 6\<close> polls, the polls 0 to \<open>j + 5\<close>, where \<open>j\<close> is the last
  poll that observed a change: the polls \<open>j + 1\<close> to \<open>j + 5\<close> observe none and each take one
  of the five lives, so the lives reach zero, and polling stops, at poll \<open>j + 5\<close>, exactly five
  intervals after poll \<open>j\<close>. (The loop then waits one more interval before it leaves.)
\<close>

theorem pollFonts_stops_five_polls_after_last_change:
  assumes "\<forall>i\<ge>N. sizes i = sizes N"
  shows "\<exists>n j. pollFonts sizes = Some n \<and> n = j + 6 \<and> j \<le> N \<and> changedAt sizes j \<and>
               (\<forall>k. j < k \<and> k < n \<longrightarrow> \<not> changedAt sizes k)"
proof -
  have first: "pollFonts sizes = pollFrom sizes 1 (int (sizes 0)) LIVES"
    unfolding pollFonts_def by (subst pollFrom.simps) (simp add: LIVES_def)
  have "\<exists>n j'. pollFrom sizes 1 (int (sizes 0)) LIVES = Some n \<and> n = j' + LIVES + 1 \<and> j' \<le> N \<and>
          changedAt sizes j' \<and> (\<forall>k. j' < k \<and> k < n \<longrightarrow> \<not> changedAt sizes k)"
    by (rule pollFrom_settles [OF assms, where j = 0]) (auto simp: changedAt_def LIVES_def)
  then obtain n j where "pollFrom sizes 1 (int (sizes 0)) LIVES = Some n" "n = j + LIVES + 1" "j \<le> N"
      "changedAt sizes j" "\<forall>k. j < k \<and> k < n \<longrightarrow> \<not> changedAt sizes k"
    by blast
  then show ?thesis unfolding first LIVES_def by (intro exI [of _ n] exI [of _ j]) simp
qed

theorem pollFonts_stops_five_polls_after_last_change_witness:
  "pollFonts (\<lambda>i. min i 3) = Some 9 \<and> changedAt (\<lambda>i. min i 3) 3 \<and> \<not> changedAt (\<lambda>i. min i 3) 8"
proof -
  let ?f = "\<lambda>i::nat. min i 3"
  from pollFonts_stops_five_polls_after_last_change [of 3 ?f]
  obtain n j where n: "pollFonts ?f = Some n" "n = j + 6" "j \<le> 3" "changedAt ?f j"
    and q: "\<forall>k. j < k \<and> k < n \<longrightarrow> \<not> changedAt ?f k"
    by auto
  have c3: "changedAt ?f 3" by (simp add: changedAt_def)
  have "j = 3"
  proof (rule ccontr)
    assume "j \<noteq> 3"
    with n(2,3) have "j < 3 \<and> 3 < n" by simp
    with q c3 show False by blast
  qed
  with n q c3 show ?thesis by simp
qed

section \<open>The component's state\<close>

text \<open>
  The state of the component: its refs (lines 30 to 45), the module's map \<^verbatim>\<open>loadedFonts\<close>
  (line 136), and what it touches of the page: the stylesheet links it has appended to the
  document head, the page address, and the timers of its two debounced functions. The
  last two fields record, for the theorems, the settings that each run of
  \<^verbatim>\<open>generateInvitationCard\<close> and of \<^verbatim>\<open>saveSettings\<close> has read.
\<close>

record state = settings +
  imageSize :: "nat \<times> nat"
  rawImageDataURL :: string
  imageDataURL :: string
  availableFontFaces :: "string list"
  errors :: "string \<rightharpoonup> string"
  loadedFonts :: "string \<rightharpoonup> bool"
  headLinks :: "string list"
  location :: searchParams
  renderTimer :: "nat option"
  saveTimer :: "nat option"
  rendered :: "settings list"
  persisted :: "settings list"

subsection \<open>\<^verbatim>\<open>handleFontLoadingCode\<close>\<close>

text \<open>
  Lines 138 to 180. \<open>requestFont\<close> is the function up to its polling loop, which runs without
  interruption: it reports the error, or returns because the URL was requested before, or
  records the URL and appends the stylesheet link. \<open>handleFontLoadingCode\<close> is the whole
  call: after a new request it polls the font set and publishes the families found,
  \<^verbatim>\<open>sortBy(uniq(fonts))\<close>. Its environment is the sequence of font-set sizes and the list of
  families that the font set holds after a number of polls.
\<close>

definition errorMessage :: string where
  "errorMessage = ''Could not find the stylesheet URL in font loading code''"

datatype fontRequest = NoUrl | AlreadyRequested | Requested string

definition requestFont :: "state \<Rightarrow> fontRequest \<times> state" where
  "requestFont st =
     (case match_link (fontLoadingCode st) of
        None \<Rightarrow> (NoUrl, st\<lparr>errors := (errors st)(''fontLoadingCode'' \<mapsto> errorMessage)\<rparr>)
      | Some url \<Rightarrow>
          if url = [] then (NoUrl, st\<lparr>errors := (errors st)(''fontLoadingCode'' \<mapsto> errorMessage)\<rparr>)
          else if loadedFonts st url \<noteq> None then (AlreadyRequested, st)
          else (Requested url,
                st\<lparr>loadedFonts := (loadedFonts st)(url \<mapsto> True), headLinks := headLinks st @ [url]\<rparr>))"

text \<open>\<^verbatim>\<open>uniq\<close> of lodash keeps the first occurrence of every element; \<^verbatim>\<open>sortBy\<close> sorts strings by their code units.\<close>

definition uniq :: "'a list \<Rightarrow> 'a list" where
  "uniq xs = rev (remdups (rev xs))"

definition sortBy :: "string list \<Rightarrow> string list" where
  "sortBy xs = sort xs"

definition publishFonts :: "string list \<Rightarrow> state \<Rightarrow> state" where
  "publishFonts fonts st = st\<lparr>availableFontFaces := sortBy (uniq fonts)\<rparr>"

definition handleFontLoadingCode :: "(nat \<Rightarrow> nat) \<Rightarrow> (nat \<Rightarrow> string list) \<Rightarrow> state \<Rightarrow> state option" where
  "handleFontLoadingCode sizes families st =
     (case requestFont st of
        (Requested url, st') \<Rightarrow>
          (case pollFonts sizes of
             None \<Rightarrow> None
           | Some n \<Rightarrow> Some (publishFonts (families n) st'))
      | (_, st') \<Rightarrow> Some st')"

text \<open>
  The startup, lines 30 to 45 and 182 to 184: the settings are loaded, the other refs get
  their initial values, and \<^verbatim>\<open>handleFontLoadingCode\<close> is called when there is font loading
  code.
\<close>

definition initialState :: "settings \<Rightarrow> searchParams \<Rightarrow> state" where
  "initialState s url =
     settings.extend s
       (state.fields (500, 500) '''' '''' [] Map.empty Map.empty [] url None None [] [])"

definition startup :: "searchParams \<Rightarrow> error + state" where
  "startup currentUrl =
     (case loadSettings currentUrl of
        Inl e \<Rightarrow> Inl e
      | Inr s \<Rightarrow>
          Inr (if fontLoadingCode s \<noteq> [] then snd (requestFont (initialState s currentUrl))
               else initialState s currentUrl))"

text \<open>
  The value of the first \<^verbatim>\<open>href\<close> attribute of the markup, as the specification words it:
  wherever \<^verbatim>\<open>href="\<close> first appears with a closing double quote after it.
\<close>

fun firstHrefValue :: "string \<Rightarrow> string option" where
  "firstHrefValue [] = None"
| \<open>firstHrefValue (c # cs) =
     (if prefix ''href="'' (c # cs) \<and> CHR 0x22 \<in> set (drop 6 (c # cs))
      then Some (hrefValue (drop 6 (c # cs)))
      else firstHrefValue cs)\<close>

lemma firstLink_has_quote: "firstLink code = Some t \<Longrightarrow> CHR 0x22 \<in> set (restOfLine t)"
  by (induction code) (auto split: if_splits)

lemma requestFont_keeps_errors:
  "fst (requestFont st) \<noteq> NoUrl \<Longrightarrow> errors (snd (requestFont st)) = errors st"
  by (auto simp: requestFont_def split: option.splits if_splits)

lemmas match_link_eval = matchAt_def linkHref_def isLineTerminator_def

text \<open>
  Claim C3, amended. \<^verbatim>\<open>handleFontLoadingCode\<close> looks for the first \<^verbatim>\<open><link href="\<close> that has
  a double quote later on its line. It reports the error when there is none, and reports
  nothing when there is one whose attribute value is not empty. When that line has exactly
  one double quote after \<^verbatim>\<open><link href="\<close>, the URL taken is the attribute value, and the error
  is reported exactly when the value is empty. A call that finds a URL leaves the errors as
  they were: there is no other error.
\<close>

theorem requestFont_error_condition:
  "(firstLink (fontLoadingCode st) = None \<longrightarrow>
      requestFont st = (NoUrl, st\<lparr>errors := (errors st)(''fontLoadingCode'' \<mapsto> errorMessage)\<rparr>)) \<and>
   (\<forall>t. firstLink (fontLoadingCode st) = Some t \<and> hrefValue t \<noteq> [] \<longrightarrow>
      fst (requestFont st) \<noteq> NoUrl \<and> errors (snd (requestFont st)) = errors st) \<and>
   (\<forall>t. firstLink (fontLoadingCode st) = Some t \<and>
        length (filter (\<lambda>c. c = CHR 0x22) (restOfLine t)) = 1 \<longrightarrow>
      match_link (fontLoadingCode st) = Some (hrefValue t) \<and>
      (fst (requestFont st) = NoUrl \<longleftrightarrow> hrefValue t = [])) \<and>
   (fst (requestFont st) \<noteq> NoUrl \<longrightarrow> errors (snd (requestFont st)) = errors st)"
proof (intro conjI allI impI)
  assume "firstLink (fontLoadingCode st) = None"
  then show "requestFont st = (NoUrl, st\<lparr>errors := (errors st)(''fontLoadingCode'' \<mapsto> errorMessage)\<rparr>)"
    by (simp add: requestFont_def match_link_firstLink)
next
  fix t
  assume a: "firstLink (fontLoadingCode st) = Some t \<and> hrefValue t \<noteq> []"
  then have "dotStarQuote t \<noteq> None"
    using firstLink_has_quote dotStarQuote_None by blast
  then obtain g where g: "dotStarQuote t = Some g" by blast
  from dotStarQuote_extends_value [OF this] a have "g \<noteq> []" by auto
  with g a show "fst (requestFont st) \<noteq> NoUrl"
    by (simp add: requestFont_def match_link_firstLink)
  then show "errors (snd (requestFont st)) = errors st" by (rule requestFont_keeps_errors)
next
  fix t
  assume a: "firstLink (fontLoadingCode st) = Some t \<and>
        length (filter (\<lambda>c. c = CHR 0x22) (restOfLine t)) = 1"
  then have m: "match_link (fontLoadingCode st) = Some (hrefValue t)"
    by (simp add: match_link_firstLink dotStarQuote_single_quote)
  then show "match_link (fontLoadingCode st) = Some (hrefValue t)" .
  from m show "fst (requestFont st) = NoUrl \<longleftrightarrow> hrefValue t = []"
    by (simp add: requestFont_def)
next
  assume "fst (requestFont st) \<noteq> NoUrl"
  then show "errors (snd (requestFont st)) = errors st" by (rule requestFont_keeps_errors)
qed

text \<open>A state in which no font has been requested yet, with pasted markup as its font loading code.\<close>

definition pasted :: "string \<Rightarrow> state" where
  "pasted code = initialState (exampleSettings\<lparr>fontLoadingCode := code\<rparr>) []"

theorem requestFont_error_condition_witness:
  \<open>fst (requestFont (pasted ''<link href="f.css">'')) = Requested ''f.css'' \<and>
   errors (snd (requestFont (pasted ''<link href="f.css">''))) = Map.empty \<and>
   errors (snd (requestFont (pasted ''<a href="f.css">''))) ''fontLoadingCode'' = Some errorMessage\<close>
proof -
  let ?ok = \<open>pasted ''<link href="f.css">''\<close>
  let ?bad = \<open>pasted ''<a href="f.css">''\<close>
  have ok: \<open>firstLink (fontLoadingCode ?ok) = Some ''f.css">''\<close>
    by (simp add: pasted_def initialState_def exampleSettings_def settings.defs state.defs
        linkHref_def restOfLine_def isLineTerminator_def)
  have v: \<open>hrefValue ''f.css">'' = ''f.css''\<close> by (simp add: hrefValue_def)
  have one: \<open>length (filter (\<lambda>c. c = CHR 0x22) (restOfLine ''f.css">'')) = 1\<close>
    by (simp add: restOfLine_def isLineTerminator_def)
  have bad: "firstLink (fontLoadingCode ?bad) = None"
    by (simp add: pasted_def initialState_def exampleSettings_def settings.defs state.defs linkHref_def)
  have e: "errors ?ok = Map.empty" "errors ?bad = Map.empty" "loadedFonts ?ok = Map.empty"
    by (simp_all add: pasted_def initialState_def settings.defs state.defs)
  from requestFont_error_condition [of ?ok] ok v one e
  have 1: \<open>match_link (fontLoadingCode ?ok) = Some ''f.css''\<close> \<open>errors (snd (requestFont ?ok)) = Map.empty\<close>
    by auto
  from 1(1) e(3) have 2: \<open>fst (requestFont ?ok) = Requested ''f.css''\<close>
    by (simp add: requestFont_def)
  from requestFont_error_condition [of ?bad] bad
  have 3: "errors (snd (requestFont ?bad)) ''fontLoadingCode'' = Some errorMessage" by simp
  from 1(2) 2 3 show ?thesis by simp
qed

text \<open>
  Claim C3 as stated fails when \<^verbatim>\<open>href\<close> is not the first attribute of the link: the markup
  has an \<^verbatim>\<open>href\<close> value and the error is reported. And with an attribute after \<^verbatim>\<open>href\<close> the
  greedy group runs to the last double quote of the line, so the URL requested is not the
  \<^verbatim>\<open>href\<close> value.
\<close>

theorem href_found_but_error_reported:
  \<open>firstHrefValue ''<link rel="stylesheet" href="f.css">'' = Some ''f.css'' \<and>
   fst (requestFont (pasted ''<link rel="stylesheet" href="f.css">'')) = NoUrl \<and>
   errors (snd (requestFont (pasted ''<link rel="stylesheet" href="f.css">''))) ''fontLoadingCode''
     = Some errorMessage \<and>
   firstHrefValue ''<link href="f.css" rel="stylesheet">'' = Some ''f.css'' \<and>
   fst (requestFont (pasted ''<link href="f.css" rel="stylesheet">''))
     = Requested ''f.css" rel="stylesheet''\<close>
  by (simp add: hrefValue_def requestFont_def pasted_def initialState_def exampleSettings_def
      settings.defs state.defs match_link_eval)

section \<open>Events\<close>

text \<open>
  The component reacts to events: the handlers bound in the template, the callbacks of the
  browser, and the passing of time. \<open>step\<close> is the reaction to one event and \<open>run\<close> the
  reaction to a sequence of them.

  Lines 131 to 134: the watcher calls \<^verbatim>\<open>generateInvitationCard\<close> and \<^verbatim>\<open>saveSettings\<close>
  when one of its eight sources has changed. \<^verbatim>\<open>fontLoadingCode\<close> is not among the sources.
  Seven sources hold strings, and an assignment of the string already held changes nothing;
  the eighth, \<^verbatim>\<open>coordinates\<close>, holds an array, and \<^verbatim>\<open>handleUpdatePosition\<close> assigns a new
  array each time, which is a change whatever its entries are.

  Lines 71 and 107: both functions are wrapped in \<^verbatim>\<open>debounce(..., 1000)\<close> of lodash. A call
  of the wrapper (re)starts a timer of 1000ms, and the wrapped function runs when the timer
  ends. A timer is the number of milliseconds left, or \<open>None\<close> when none is running.
  A run of \<^verbatim>\<open>generateInvitationCard\<close> reads the settings after it has decoded the image and
  yielded once; the model lets it read them when it starts, and records the settings read.
  The end of a run, which writes \<^verbatim>\<open>imageSize\<close> and \<^verbatim>\<open>imageDataURL\<close>, is the event \<open>Drawn\<close>.
\<close>

definition snapshot :: "state \<Rightarrow> settings" where
  "snapshot st = settings.truncate st"

definition callGenerateInvitationCard :: "state \<Rightarrow> state" where
  "callGenerateInvitationCard st = st\<lparr>renderTimer := Some 1000\<rparr>"

definition callSaveSettings :: "state \<Rightarrow> state" where
  "callSaveSettings st = st\<lparr>saveTimer := Some 1000\<rparr>"

definition watchCallback :: "state \<Rightarrow> state" where
  "watchCallback st = callSaveSettings (callGenerateInvitationCard st)"

definition watchedStrings :: "state \<Rightarrow> string list" where
  "watchedStrings st =
     [fontFamily st, isBold st, isItalic st, fontSize st, fontColor st, name st, rawImageDataURL st]"

definition assign :: "state \<Rightarrow> state \<Rightarrow> state" where
  "assign old new = (if watchedStrings new \<noteq> watchedStrings old then watchCallback new else new)"

text \<open>Lines 188 to 192. \<^verbatim>\<open>clientWidth\<close> and \<^verbatim>\<open>clientHeight\<close> are whole numbers of pixels.\<close>

definition handleUpdatePosition :: "real \<Rightarrow> real \<Rightarrow> nat \<Rightarrow> nat \<Rightarrow> state \<Rightarrow> state" where
  "handleUpdatePosition offsetX offsetY clientWidth clientHeight st =
     watchCallback
       (st\<lparr>coordinates := JArray [JNumber (divide_num (Num offsetX) (Num (real clientWidth))),
                                  JNumber (divide_num (Num offsetY) (Num (real clientHeight)))]\<rparr>)"

definition runGenerateInvitationCard :: "state \<Rightarrow> state" where
  "runGenerateInvitationCard st = st\<lparr>rendered := rendered st @ [snapshot st]\<rparr>"

definition runSaveSettings :: "(real \<Rightarrow> string) \<Rightarrow> state \<Rightarrow> state" where
  "runSaveSettings numberToString st =
     st\<lparr>location := saveSettings numberToString (location st) st,
        persisted := persisted st @ [snapshot st]\<rparr>"

text \<open>Time passes: a timer that ends within \<open>d\<close> milliseconds runs its function.\<close>

definition elapseRender :: "nat \<Rightarrow> state \<Rightarrow> state" where
  "elapseRender d st =
     (case renderTimer st of
        None \<Rightarrow> st
      | Some r \<Rightarrow>
          if r \<le> d then runGenerateInvitationCard (st\<lparr>renderTimer := None\<rparr>)
          else st\<lparr>renderTimer := Some (r - d)\<rparr>)"

definition elapseSave :: "(real \<Rightarrow> string) \<Rightarrow> nat \<Rightarrow> state \<Rightarrow> state" where
  "elapseSave numberToString d st =
     (case saveTimer st of
        None \<Rightarrow> st
      | Some r \<Rightarrow>
          if r \<le> d then runSaveSettings numberToString (st\<lparr>saveTimer := None\<rparr>)
          else st\<lparr>saveTimer := Some (r - d)\<rparr>)"

definition elapse :: "(real \<Rightarrow> string) \<Rightarrow> nat \<Rightarrow> state \<Rightarrow> state" where
  "elapse numberToString d st = elapseSave numberToString d (elapseRender d st)"

text \<open>
  \<open>ChangeFontLoadingCode\<close> is a call of \<^verbatim>\<open>handleFontLoadingCode\<close> up to its polling loop and
  \<open>FontsPolled\<close> the end of such a call, which publishes the font families found.
  \<open>FontsLoadingDone\<close> is the browser's \<^verbatim>\<open>loadingdone\<close> event (line 186), \<open>FileChosen\<close> the end of
  \<^verbatim>\<open>updatePreview\<close> with the data URL of the file read, \<open>Click\<close> a click on the preview with
  \<^verbatim>\<open>offsetX\<close>, \<^verbatim>\<open>offsetY\<close>, \<^verbatim>\<open>clientWidth\<close> and \<^verbatim>\<open>clientHeight\<close>, and \<open>Wait d\<close> the passing of
  \<open>d\<close> milliseconds.
\<close>

datatype event =
    InputName string
  | InputFontColor string
  | InputFontSize string
  | InputFontFamily string
  | InputBold bool
  | InputItalic bool
  | InputFontLoadingCode string
  | ChangeFontLoadingCode
  | FontsPolled "string list"
  | FontsLoadingDone
  | FileChosen string
  | Click real real nat nat
  | Drawn "nat \<times> nat" string
  | Wait nat

fun step :: "(real \<Rightarrow> string) \<Rightarrow> event \<Rightarrow> state \<Rightarrow> state" where
  "step nts (InputName v) st = assign st (st\<lparr>name := v\<rparr>)"
| "step nts (InputFontColor v) st = assign st (st\<lparr>fontColor := v\<rparr>)"
| "step nts (InputFontSize v) st = assign st (st\<lparr>fontSize := v\<rparr>)"
| "step nts (InputFontFamily v) st = assign st (st\<lparr>fontFamily := v\<rparr>)"
| "step nts (InputBold b) st = assign st (st\<lparr>isBold := (if b then ''1'' else '''')\<rparr>)"
| "step nts (InputItalic b) st = assign st (st\<lparr>isItalic := (if b then ''1'' else '''')\<rparr>)"
| "step nts (InputFontLoadingCode v) st = st\<lparr>fontLoadingCode := v\<rparr>"
| "step nts ChangeFontLoadingCode st = snd (requestFont st)"
| "step nts (FontsPolled fonts) st = publishFonts fonts st"
| "step nts FontsLoadingDone st = callGenerateInvitationCard st"
| "step nts (FileChosen url) st = callGenerateInvitationCard (assign st (st\<lparr>rawImageDataURL := url\<rparr>))"
| "step nts (Click ox oy cw ch) st = handleUpdatePosition ox oy cw ch st"
| "step nts (Drawn sz url) st = st\<lparr>imageSize := sz, imageDataURL := url\<rparr>"
| "step nts (Wait d) st = elapse nts d st"

fun run :: "(real \<Rightarrow> string) \<Rightarrow> state \<Rightarrow> event list \<Rightarrow> state" where
  "run nts st [] = st"
| "run nts st (e # es) = run nts (step nts e st) es"

lemmas step_defs =
  assign_def watchCallback_def callSaveSettings_def callGenerateInvitationCard_def
  handleUpdatePosition_def publishFonts_def elapse_def elapseSave_def elapseRender_def
  runSaveSettings_def runGenerateInvitationCard_def

subsection \<open>Stylesheets are injected once\<close>

definition linksInv :: "state \<Rightarrow> bool" where
  "linksInv st =
     (distinct (headLinks st) \<and> set (headLinks st) = dom (loadedFonts st) \<and> loadedFonts st [] = None)"

lemma requestFont_linksInv: "linksInv st \<Longrightarrow> linksInv (snd (requestFont st))"
  by (auto simp: linksInv_def requestFont_def split: option.splits)

lemma step_links:
  "e \<noteq> ChangeFontLoadingCode \<Longrightarrow>
   headLinks (step nts e st) = headLinks st \<and> loadedFonts (step nts e st) = loadedFonts st"
  by (cases e) (simp_all add: step_defs split: option.splits)

lemma step_linksInv: "linksInv st \<Longrightarrow> linksInv (step nts e st)"
proof (cases "e = ChangeFontLoadingCode")
  case True
  assume "linksInv st"
  with True show ?thesis by (simp add: requestFont_linksInv)
next
  case False
  assume "linksInv st"
  with step_links [OF False, of nts st] show ?thesis by (simp add: linksInv_def)
qed

lemma run_linksInv: "linksInv st \<Longrightarrow> linksInv (run nts st es)"
  by (induction es arbitrary: st) (simp_all add: step_linksInv)

lemma initialState_fields:
  "headLinks (initialState s url) = []" "loadedFonts (initialState s url) = Map.empty"
  "errors (initialState s url) = Map.empty" "renderTimer (initialState s url) = None"
  "saveTimer (initialState s url) = None" "rendered (initialState s url) = []"
  "persisted (initialState s url) = []" "location (initialState s url) = url"
  "coordinates (initialState s url) = coordinates s" "fontLoadingCode (initialState s url) = fontLoadingCode s"
  "fontSize (initialState s url) = fontSize s" "name (initialState s url) = name s"
  by (simp_all add: initialState_def settings.defs state.defs)

lemma startup_linksInv: "startup url = Inr st \<Longrightarrow> linksInv st"
proof -
  assume a: "startup url = Inr st"
  then obtain s where s: "loadSettings url = Inr s" by (auto simp: startup_def split: sum.splits)
  have "linksInv (initialState s url)" by (simp add: linksInv_def initialState_fields)
  with a s show ?thesis by (auto simp: startup_def requestFont_linksInv split: if_splits)
qed

text \<open>
  Claim C7. In a session, that is from the startup on and whatever the events are, no URL
  is injected twice into the document head; and a call of \<^verbatim>\<open>handleFontLoadingCode\<close> whose
  markup yields a URL that was requested before changes nothing: not the set of requested
  URLs, not the head, not any other part of the state.
\<close>

theorem stylesheet_injected_once_per_url:
  assumes "startup url = Inr st0"
  shows "distinct (headLinks (run nts st0 es)) \<and>
         (\<forall>u. match_link (fontLoadingCode (run nts st0 es)) = Some u \<and>
              loadedFonts (run nts st0 es) u \<noteq> None \<longrightarrow>
              requestFont (run nts st0 es) = (AlreadyRequested, run nts st0 es) \<and>
              handleFontLoadingCode sizes families (run nts st0 es) = Some (run nts st0 es))"
proof -
  let ?st = "run nts st0 es"
  have inv: "linksInv ?st" using assms by (simp add: startup_linksInv run_linksInv)
  have "requestFont ?st = (AlreadyRequested, ?st) \<and> handleFontLoadingCode sizes families ?st = Some ?st"
    if "match_link (fontLoadingCode ?st) = Some u" "loadedFonts ?st u \<noteq> None" for u
  proof -
    from inv that(2) have "u \<noteq> []" by (auto simp: linksInv_def)
    with that have "requestFont ?st = (AlreadyRequested, ?st)" by (simp add: requestFont_def)
    then show ?thesis by (simp add: handleFontLoadingCode_def)
  qed
  with inv show ?thesis by (simp add: linksInv_def)
qed

theorem stylesheet_injected_once_per_url_witness:
  \<open>startup [(''fontLoadingCode'', ''<link href="f.css">'')] =
     Inr (snd (requestFont (initialState (defaultSettings\<lparr>fontLoadingCode := ''<link href="f.css">''\<rparr>)
                              [(''fontLoadingCode'', ''<link href="f.css">'')]))) \<and>
   headLinks (run tenthsToString
       (snd (requestFont (initialState (defaultSettings\<lparr>fontLoadingCode := ''<link href="f.css">''\<rparr>)
                            [(''fontLoadingCode'', ''<link href="f.css">'')])))
       [ChangeFontLoadingCode]) = [''f.css''] \<and>
   handleFontLoadingCode (\<lambda>i. 0) (\<lambda>n. [])
       (run tenthsToString
          (snd (requestFont (initialState (defaultSettings\<lparr>fontLoadingCode := ''<link href="f.css">''\<rparr>)
                               [(''fontLoadingCode'', ''<link href="f.css">'')])))
          [ChangeFontLoadingCode]) =
     Some (run tenthsToString
          (snd (requestFont (initialState (defaultSettings\<lparr>fontLoadingCode := ''<link href="f.css">''\<rparr>)
                               [(''fontLoadingCode'', ''<link href="f.css">'')])))
          [ChangeFontLoadingCode])\<close>
proof -
  let ?url = \<open>[(''fontLoadingCode'', ''<link href="f.css">'')]\<close>
  let ?s = \<open>defaultSettings\<lparr>fontLoadingCode := ''<link href="f.css">''\<rparr>\<close>
  let ?st0 = "snd (requestFont (initialState ?s ?url))"
  have st0: "startup ?url = Inr ?st0" by (simp add: startup_def loadSettings_example)
  have m: \<open>match_link ''<link href="f.css">'' = Some ''f.css''\<close> by (simp add: match_link_eval)
  have r0: \<open>requestFont (initialState ?s ?url) =
      (Requested ''f.css'',
       (initialState ?s ?url)\<lparr>loadedFonts := (loadedFonts (initialState ?s ?url))(''f.css'' \<mapsto> True),
          headLinks := headLinks (initialState ?s ?url) @ [''f.css'']\<rparr>)\<close>
    by (simp add: requestFont_def initialState_fields m del: match_link.simps)
  then have f: \<open>headLinks ?st0 = [''f.css'']\<close> \<open>loadedFonts ?st0 ''f.css'' = Some True\<close>
    \<open>fontLoadingCode ?st0 = ''<link href="f.css">''\<close>
    by (simp_all add: initialState_fields)
  from f m have r1: "requestFont ?st0 = (AlreadyRequested, ?st0)"
    by (simp add: requestFont_def del: match_link.simps)
  then have run1: "run tenthsToString ?st0 [ChangeFontLoadingCode] = ?st0" by simp
  from stylesheet_injected_once_per_url [OF st0, of tenthsToString "[ChangeFontLoadingCode]" "\<lambda>i. 0" "\<lambda>n. []"]
  have "handleFontLoadingCode (\<lambda>i. 0) (\<lambda>n. []) ?st0 = Some ?st0"
    unfolding run1 using f m by auto
  with st0 f run1 show ?thesis by simp
qed

subsection \<open>The error message stays\<close>

lemma step_keeps_error:
  "errors st ''fontLoadingCode'' = Some errorMessage \<Longrightarrow>
   errors (step nts e st) ''fontLoadingCode'' = Some errorMessage"
  by (cases e) (auto simp: step_defs requestFont_def split: option.splits)

text \<open>
  Claim C10. Once the message "Could not find the stylesheet URL in font loading code" is
  set, it stays: no event clears it, and neither does a later call of
  \<^verbatim>\<open>handleFontLoadingCode\<close>, also one whose markup is valid and whose stylesheet is injected.
\<close>

theorem font_error_is_never_cleared:
  assumes "errors st ''fontLoadingCode'' = Some errorMessage"
  shows "errors (run nts st es) ''fontLoadingCode'' = Some errorMessage \<and>
         (\<forall>st'. handleFontLoadingCode sizes families (run nts st es) = Some st' \<longrightarrow>
            errors st' ''fontLoadingCode'' = Some errorMessage)"
proof -
  have r: "errors (run nts st es) ''fontLoadingCode'' = Some errorMessage"
    using assms by (induction es arbitrary: st) (simp_all add: step_keeps_error)
  moreover have "errors st' ''fontLoadingCode'' = Some errorMessage"
    if "handleFontLoadingCode sizes families (run nts st es) = Some st'" for st'
    using that r
    by (auto simp: handleFontLoadingCode_def requestFont_def publishFonts_def
        split: option.splits if_splits)
  ultimately show ?thesis by blast
qed

theorem font_error_is_never_cleared_witness:
  \<open>errors (run tenthsToString (snd (requestFont (pasted ''no link here'')))
       [InputFontLoadingCode ''<link href="f.css">'', ChangeFontLoadingCode, FontsPolled [''Roboto'']])
     ''fontLoadingCode'' = Some errorMessage \<and>
   headLinks (run tenthsToString (snd (requestFont (pasted ''no link here'')))
       [InputFontLoadingCode ''<link href="f.css">'', ChangeFontLoadingCode, FontsPolled [''Roboto'']])
     = [''f.css'']\<close>
proof -
  let ?st = \<open>snd (requestFont (pasted ''no link here''))\<close>
  have st: \<open>?st = (pasted ''no link here'')\<lparr>errors := [''fontLoadingCode'' \<mapsto> errorMessage]\<rparr>\<close>
    by (simp add: requestFont_def pasted_def initialState_fields exampleSettings_def match_link_eval)
  then have e: "errors ?st ''fontLoadingCode'' = Some errorMessage" by simp
  have h: \<open>headLinks (run tenthsToString ?st
       [InputFontLoadingCode ''<link href="f.css">'', ChangeFontLoadingCode, FontsPolled [''Roboto'']])
     = [''f.css'']\<close>
    unfolding st
    by (simp add: requestFont_def pasted_def initialState_fields publishFonts_def match_link_eval)
  from font_error_is_never_cleared [OF e, of tenthsToString] h show ?thesis by blast
qed

subsection \<open>The position of the text\<close>

text \<open>
  The coordinates are a pair of fractions when they are an array of two finite numbers
  between 0 and 1. A click falls inside the image when its offsets lie between 0 and the
  width and height of the image element, which are not zero.
\<close>

fun inUnitSquare :: "jsval \<Rightarrow> bool" where
  "inUnitSquare (JArray [JNumber (Num a), JNumber (Num b)]) = (0 \<le> a \<and> a \<le> 1 \<and> 0 \<le> b \<and> b \<le> 1)"
| "inUnitSquare _ = False"

fun insideImage :: "event \<Rightarrow> bool" where
  "insideImage (Click ox oy cw ch) = (0 \<le> ox \<and> ox \<le> real cw \<and> 0 \<le> oy \<and> oy \<le> real ch \<and> 0 < cw \<and> 0 < ch)"
| "insideImage _ = True"

lemma step_inUnitSquare:
  "inUnitSquare (coordinates st) \<Longrightarrow> insideImage e \<Longrightarrow> inUnitSquare (coordinates (step nts e st))"
  by (cases e) (auto simp: step_defs requestFont_def split: option.splits)

lemma run_inUnitSquare:
  "inUnitSquare (coordinates st) \<Longrightarrow> list_all insideImage es \<Longrightarrow>
   inUnitSquare (coordinates (run nts st es))"
  by (induction es arbitrary: st) (simp_all add: step_inUnitSquare)

lemma startup_coordinates:
  assumes "startup url = Inr st"
  shows "\<exists>c. loadObjectParam url ''coordinates'' = Inr c \<and>
             coordinates st = or_value c (JArray [JNumber (Num (1/2)), JNumber (Num (1/2))])"
proof -
  from assms obtain s where s: "loadSettings url = Inr s" by (auto simp: startup_def split: sum.splits)
  then obtain c where c: "loadObjectParam url ''coordinates'' = Inr c"
    and cs: "coordinates s = or_value c (JArray [JNumber (Num (1/2)), JNumber (Num (1/2))])"
    by (auto simp: loadSettings_def split: sum.splits)
  have "coordinates (snd (requestFont (initialState s url))) = coordinates s"
    by (auto simp: requestFont_def initialState_fields split: option.splits)
  with assms s cs have "coordinates st = or_value c (JArray [JNumber (Num (1/2)), JNumber (Num (1/2))])"
    by (auto simp: startup_def initialState_fields split: if_splits)
  with c show ?thesis by blast
qed

text \<open>
  Claim C8, amended. When the page address has no \<^verbatim>\<open>coordinates\<close> parameter, or one that
  is a pair of fractions already, and every click falls inside the image, the coordinates
  are a pair of fractions in every state the component reaches.
\<close>

theorem coordinates_stay_in_unit_square:
  assumes "startup url = Inr st0"
    and "get url ''coordinates'' = None \<or> (\<exists>c. loadObjectParam url ''coordinates'' = Inr c \<and> inUnitSquare c)"
    and "list_all insideImage es"
  shows "inUnitSquare (coordinates (run nts st0 es))"
proof -
  from startup_coordinates [OF assms(1)] obtain c where c: "loadObjectParam url ''coordinates'' = Inr c"
    and cs: "coordinates st0 = or_value c (JArray [JNumber (Num (1/2)), JNumber (Num (1/2))])"
    by blast
  from assms(2) c have "c = JNull \<or> inUnitSquare c" by (auto simp: loadObjectParam_def)
  with cs have "inUnitSquare (coordinates st0)" by (auto simp: or_value_def)
  from this assms(3) show ?thesis by (rule run_inUnitSquare)
qed

theorem coordinates_stay_in_unit_square_witness:
  "startup [(''name'', ''Jane Doe'')] =
     Inr (initialState (defaultSettings\<lparr>name := ''Jane Doe''\<rparr>) [(''name'', ''Jane Doe'')]) \<and>
   coordinates (run tenthsToString
       (initialState (defaultSettings\<lparr>name := ''Jane Doe''\<rparr>) [(''name'', ''Jane Doe'')])
       [Click 150 48 600 480, InputName ''J'']) =
     JArray [JNumber (Num (1/4)), JNumber (Num (1/10))] \<and>
   inUnitSquare (coordinates (run tenthsToString
       (initialState (defaultSettings\<lparr>name := ''Jane Doe''\<rparr>) [(''name'', ''Jane Doe'')])
       [Click 150 48 600 480, InputName ''J'']))"
proof -
  let ?st0 = "initialState (defaultSettings\<lparr>name := ''Jane Doe''\<rparr>) [(''name'', ''Jane Doe'')]"
  have st0: "startup [(''name'', ''Jane Doe'')] = Inr ?st0"
    by (simp add: startup_def loadSettings_example defaultSettings_def)
  have c: "coordinates (run tenthsToString ?st0 [Click 150 48 600 480, InputName ''J'']) =
        JArray [JNumber (Num (1/4)), JNumber (Num (1/10))]"
    by (simp add: step_defs)
  from coordinates_stay_in_unit_square [OF st0, of "[Click 150 48 600 480, InputName ''J'']" tenthsToString]
  have "inUnitSquare (coordinates (run tenthsToString ?st0 [Click 150 48 600 480, InputName ''J'']))"
    by (simp add: get_def)
  with st0 c show ?thesis by blast
qed

text \<open>
  Claim C8 as stated fails at startup: a \<^verbatim>\<open>coordinates\<close> parameter is stored as it was
  parsed, whatever its entries are.
\<close>

theorem coordinates_parameter_is_not_range_checked:
  "startup [(''coordinates'', ''[5,7]'')] =
     Inr (initialState (defaultSettings\<lparr>coordinates := JArray [JNumber (Num 5), JNumber (Num 7)]\<rparr>)
            [(''coordinates'', ''[5,7]'')]) \<and>
   coordinates (initialState (defaultSettings\<lparr>coordinates := JArray [JNumber (Num 5), JNumber (Num 7)]\<rparr>)
            [(''coordinates'', ''[5,7]'')]) = JArray [JNumber (Num 5), JNumber (Num 7)] \<and>
   \<not> inUnitSquare (JArray [JNumber (Num 5), JNumber (Num 7)])"
  by (simp add: startup_def loadSettings_example defaultSettings_def initialState_fields)

text \<open>
  Claim C2 at the address \<^verbatim>\<open>?coordinates=abc\<close>: \<^verbatim>\<open>JSON.parse\<close> throws and nothing catches it,
  so the startup fails. A malformed \<^verbatim>\<open>fontSize\<close> is recovered, as the claim says: it is
  stored as it is and rendered as 14.
\<close>

theorem startup_fails_on_malformed_coordinates:
  "startup [(''coordinates'', ''abc'')] = Inl SyntaxError \<and>
   startup [(''fontSize'', ''abc'')] =
     Inr (initialState (defaultSettings\<lparr>fontSize := ''abc''\<rparr>) [(''fontSize'', ''abc'')]) \<and>
   effectiveSize ''abc'' 600 = Num 14"
proof -
  have "loadSettings [(''coordinates'', ''abc'')] = Inl SyntaxError"
    by (simp add: loadSettings_def loadObjectParam_def get_def JSON_parse_eval)
  then have 1: "startup [(''coordinates'', ''abc'')] = Inl SyntaxError"
    by (simp add: startup_def)
  have 2: "startup [(''fontSize'', ''abc'')] =
     Inr (initialState (defaultSettings\<lparr>fontSize := ''abc''\<rparr>) [(''fontSize'', ''abc'')])"
    by (simp add: startup_def loadSettings_example defaultSettings_def)
  have 3: "effectiveSize ''abc'' 600 = Num 14"
    by (simp add: effectiveSize_def or_number_def parseFloat_eval)
  from 1 2 3 show ?thesis by simp
qed

section \<open>The sync controller\<close>














end
